theory Spec2Isabelle
  imports Main "HOL-Library.Word"
begin

section \<open>The header \<open>mot/data/opencl/nmsimplex.h\<close>\<close>

text \<open>
  The repository is one C header. Its fourteen lines are kept here as they stand in the
  file, one string per line; the lines are separated by a newline character and the last
  line has none after it.
\<close>

definition nmsimplex_h :: "string list" where
  "nmsimplex_h =
    [''#ifndef NMSIMPLEX_H'',
     ''#define NMSIMPLEX_H'',
     '''',
     ''/**'',
     '' * Author = Robbert Harms'',
     '' * Date = 2014-02-05'',
     '' * License = LGPL v3'',
     '' * Maintainer = Robbert Harms'',
     '' * Email = robbert.harms@maastrichtuniversity.nl'',
     '' */'',
     '''',
     ''int nmsimplex(MOT_FLOAT_TYPE* const model_parameters, const void* const data);'',
     '''',
     ''#endif // NMSIMPLEX_H'']"

section \<open>What a C translation unit does with the header\<close>

text \<open>
  A header has no behaviour of its own: it acts when a translation unit includes it. The
  fragment of the C preprocessor the header uses is modelled: comments are removed,
  the remaining text is cut into lines and tokens, the directives \<open>#ifndef\<close>,
  \<open>#define\<close> (object-like) and \<open>#endif\<close> are obeyed, and the tokens of every other
  line that is not skipped are macro-expanded and handed to the compiler. Anything else
  (another directive, a function-like macro) is an error of the model, never silently
  accepted. String literals, character constants and line splicing do not occur in the
  header and are not modelled.
\<close>

subsection \<open>Lines and comments\<close>

definition newline :: char where
  "newline = CHR 0x0A"

fun join_lines :: "string list \<Rightarrow> string" where
  "join_lines [] = []"
| "join_lines [l] = l"
| "join_lines (l # ls) = l @ newline # join_lines ls"

fun split_lines :: "string \<Rightarrow> string \<Rightarrow> string list" where
  "split_lines cur [] = [cur]"
| "split_lines cur (c # cs) =
     (if c = newline then cur # split_lines [] cs else split_lines (cur @ [c]) cs)"

datatype mode = InCode | InBlock | InLine

text \<open>
  A block comment becomes one space and swallows the newlines inside it; a line comment
  becomes one space and ends before the newline.
\<close>

fun strip_comments :: "mode \<Rightarrow> string \<Rightarrow> string" where
  "strip_comments InCode (c # d # cs) =
     (if c = CHR ''/'' \<and> d = CHR ''*'' then CHR '' '' # strip_comments InBlock cs
      else if c = CHR ''/'' \<and> d = CHR ''/'' then CHR '' '' # strip_comments InLine cs
      else c # strip_comments InCode (d # cs))"
| "strip_comments InCode cs = cs"
| "strip_comments InBlock (c # d # cs) =
     (if c = CHR ''*'' \<and> d = CHR ''/'' then strip_comments InCode cs
      else strip_comments InBlock (d # cs))"
| "strip_comments InBlock cs = []"
| "strip_comments InLine (c # cs) =
     (if c = newline then c # strip_comments InCode cs else strip_comments InLine cs)"
| "strip_comments InLine [] = []"

subsection \<open>Tokens\<close>

text \<open>
  A token is kept as its spelling. A word is a maximal run of letters, digits and
  underscores; every other character that is not white space is a token of its own.
\<close>

definition is_word_char :: "char \<Rightarrow> bool" where
  "is_word_char c =
     (c \<in> set ''abcdefghijklmnopqrstuvwxyzABCDEFGHIJKLMNOPQRSTUVWXYZ0123456789_'')"

definition is_digit :: "char \<Rightarrow> bool" where
  "is_digit c = (c \<in> set ''0123456789'')"

definition is_space :: "char \<Rightarrow> bool" where
  "is_space c = (c \<in> set [CHR '' '', CHR 0x09, CHR 0x0A, CHR 0x0B, CHR 0x0C, CHR 0x0D])"

definition flush :: "string \<Rightarrow> string list" where
  "flush w = (if w = [] then [] else [w])"

fun lex_acc :: "string \<Rightarrow> string \<Rightarrow> string list" where
  "lex_acc w [] = flush w"
| "lex_acc w (c # cs) =
     (if is_word_char c then lex_acc (w @ [c]) cs
      else flush w @ (if is_space c then [] else [[c]]) @ lex_acc [] cs)"

definition lex_line :: "string \<Rightarrow> string list" where
  "lex_line l = lex_acc [] l"

definition is_identifier :: "string \<Rightarrow> bool" where
  "is_identifier x =
     (case x of [] \<Rightarrow> False | c # cs \<Rightarrow> is_word_char c \<and> \<not> is_digit c \<and> list_all is_word_char cs)"

subsection \<open>Directives\<close>

datatype pp_line =
    Ifndef string
  | Define string "string list"
  | Endif
  | Text "string list"
  | Unsupported

fun parse_directive :: "string list \<Rightarrow> pp_line" where
  "parse_directive [] = Text []"
| "parse_directive (d # ts) =
     (if d = ''ifndef'' then
        (case ts of [x] \<Rightarrow> if is_identifier x then Ifndef x else Unsupported
                  | _ \<Rightarrow> Unsupported)
      else if d = ''define'' then
        (case ts of [] \<Rightarrow> Unsupported
                  | x # r \<Rightarrow>
                      if is_identifier x \<and> (case r of [] \<Rightarrow> True | p # _ \<Rightarrow> p \<noteq> ''('')
                      then Define x r else Unsupported)
      else if d = ''endif'' then
        (case ts of [] \<Rightarrow> Endif | _ \<Rightarrow> Unsupported)
      else Unsupported)"

fun parse_line :: "string list \<Rightarrow> pp_line" where
  "parse_line [] = Text []"
| "parse_line (h # ts) = (if h = ''#'' then parse_directive ts else Text (h # ts))"

definition pp_parse :: "string list \<Rightarrow> pp_line list" where
  "pp_parse file =
     map (\<lambda>l. parse_line (lex_line l)) (split_lines [] (strip_comments InCode (join_lines file)))"

subsection \<open>Macro replacement\<close>

text \<open>
  Object-like macros only. A macro is not replaced again inside its own replacement
  (the list \<open>hs\<close> holds the names being replaced), which is what makes rescanning end.
\<close>

function expand :: "(string \<times> string list) list \<Rightarrow> string list \<Rightarrow> string list \<Rightarrow> string list" where
  "expand ms hs [] = []"
| "expand ms hs (t # ts) =
     (case map_of ms t of
        None \<Rightarrow> t # expand ms hs ts
      | Some r \<Rightarrow>
          if t \<in> set hs then t # expand ms hs ts
          else expand ms (t # hs) r @ expand ms hs ts)"
  by pat_completeness auto
termination
proof (relation "measures [\<lambda>(ms, hs, ts). card (fst ` set ms - set hs), \<lambda>(ms, hs, ts). length ts]",
    goal_cases)
  case 1
  show ?case by simp
next
  case (2 ms hs t ts)
  show ?case by simp
next
  case (3 ms hs t ts r)
  show ?case by simp
next
  case (4 ms hs t ts r)
  from 4(1) have "t \<in> fst ` set ms"
    by (metis map_of_eq_None_iff option.distinct(1))
  with 4(2) have "fst ` set ms - set (t # hs) \<subset> fst ` set ms - set hs"
    by auto
  then have "card (fst ` set ms - set (t # hs)) < card (fst ` set ms - set hs)"
    by (intro psubset_card_mono) auto
  then show ?case by simp
next
  case (5 ms hs t ts r)
  show ?case by simp
qed

subsection \<open>The translation unit and inclusion\<close>

text \<open>
  The state of a translation unit, as far as a header can touch it: the macros defined
  so far (name and replacement list) and the tokens handed to the compiler so far.
\<close>

record tu =
  macros :: "(string \<times> string list) list"
  emitted :: "string list"

datatype pp_error =
    UnsupportedDirective
  | EndifWithoutIf
  | UnterminatedConditional
  | MacroRedefined string

text \<open>
  The stack holds one flag per open conditional: whether its group is being processed.
  A group inside a skipped group is skipped.
\<close>

definition active :: "bool list \<Rightarrow> bool" where
  "active stk = (case stk of [] \<Rightarrow> True | b # _ \<Rightarrow> b)"

fun pp_run :: "bool list \<Rightarrow> pp_line list \<Rightarrow> tu \<Rightarrow> pp_error + tu" where
  "pp_run stk [] s = (if stk = [] then Inr s else Inl UnterminatedConditional)"
| "pp_run stk (Ifndef x # ls) s =
     pp_run ((active stk \<and> map_of (macros s) x = None) # stk) ls s"
| "pp_run stk (Endif # ls) s =
     (case stk of [] \<Rightarrow> Inl EndifWithoutIf | _ # stk' \<Rightarrow> pp_run stk' ls s)"
| "pp_run stk (Define x r # ls) s =
     (if active stk then
        (case map_of (macros s) x of
           None \<Rightarrow> pp_run stk ls (s\<lparr>macros := (x, r) # macros s\<rparr>)
         | Some r' \<Rightarrow> if r' = r then pp_run stk ls s else Inl (MacroRedefined x))
      else pp_run stk ls s)"
| "pp_run stk (Text ts # ls) s =
     (if active stk then pp_run stk ls (s\<lparr>emitted := emitted s @ expand (macros s) [] ts\<rparr>)
      else pp_run stk ls s)"
| "pp_run stk (Unsupported # ls) s = Inl UnsupportedDirective"

definition pp_include :: "string list \<Rightarrow> tu \<Rightarrow> pp_error + tu" where
  "pp_include file s = pp_run [] (pp_parse file) s"


subsection \<open>Declarations\<close>

text \<open>
  The compiler's view of the emitted tokens, as far as the header needs it: a declaration
  at file scope ends at its semicolon, and a prototype has the shape
  \<open>specifiers name ( parameter , ... ) ;\<close> where every parameter has the shape
  \<open>specifiers * qualifiers name\<close>. Specifiers are words, and a parameter has at least
  one besides \<open>const\<close>. Whatever has another shape is not recognised.
\<close>

fun split_at :: "string \<Rightarrow> string list \<Rightarrow> string list \<Rightarrow> string list list" where
  "split_at sep cur [] = [cur]"
| "split_at sep cur (t # ts) =
     (if t = sep then cur # split_at sep [] ts else split_at sep (cur @ [t]) ts)"

fun split_decls :: "string list \<Rightarrow> string list \<Rightarrow> string list list" where
  "split_decls cur [] = (if cur = [] then [] else [cur])"
| "split_decls cur (t # ts) =
     (if t = '';'' then (cur @ [t]) # split_decls [] ts else split_decls (cur @ [t]) ts)"

definition declarations :: "string list \<Rightarrow> string list list" where
  "declarations toks = split_decls [] toks"

record param =
  pointee :: "string list"
  pointee_const :: bool
  pointer_const :: bool
  param_name :: string

record prototype =
  return_type :: "string list"
  fname :: string
  params :: "param list"

definition parse_param :: "string list \<Rightarrow> param option" where
  "parse_param toks =
     (case dropWhile (\<lambda>t. t \<noteq> ''*'') toks of
        [] \<Rightarrow> None
      | _ # rest \<Rightarrow>
          (case rev rest of
             [] \<Rightarrow> None
           | x # quals \<Rightarrow>
               if is_identifier x \<and> x \<noteq> ''const'' \<and> list_all (\<lambda>q. q = ''const'') quals
                  \<and> list_all is_identifier (takeWhile (\<lambda>t. t \<noteq> ''*'') toks)
                  \<and> filter (\<lambda>t. t \<noteq> ''const'') (takeWhile (\<lambda>t. t \<noteq> ''*'') toks) \<noteq> []
               then Some \<lparr>pointee = filter (\<lambda>t. t \<noteq> ''const'') (takeWhile (\<lambda>t. t \<noteq> ''*'') toks),
                          pointee_const = (''const'' \<in> set (takeWhile (\<lambda>t. t \<noteq> ''*'') toks)),
                          pointer_const = (''const'' \<in> set quals),
                          param_name = x\<rparr>
               else None))"

fun all_some :: "'a option list \<Rightarrow> 'a list option" where
  "all_some [] = Some []"
| "all_some (None # xs) = None"
| "all_some (Some x # xs) = (case all_some xs of None \<Rightarrow> None | Some ys \<Rightarrow> Some (x # ys))"

definition parse_prototype :: "string list \<Rightarrow> prototype option" where
  "parse_prototype toks =
     (case rev (takeWhile (\<lambda>t. t \<noteq> ''('') toks) of
        [] \<Rightarrow> None
      | f # rspecs \<Rightarrow>
          (case rev (dropWhile (\<lambda>t. t \<noteq> ''('') toks) of
             semi # close # rargs \<Rightarrow>
               if semi = '';'' \<and> close = '')'' \<and> rargs \<noteq> [] \<and> is_identifier f \<and> rspecs \<noteq> []
                  \<and> list_all is_identifier rspecs
               then (case all_some (map parse_param (split_at '','' [] (tl (rev rargs)))) of
                       None \<Rightarrow> None
                     | Some ps \<Rightarrow> Some \<lparr>return_type = rev rspecs, fname = f, params = ps\<rparr>)
               else None
           | _ \<Rightarrow> None))"

text \<open>
  The prototype as section 6 of the specification quotes it, to be compared with what the
  header holds.
\<close>

definition spec_prototype :: string where
  "spec_prototype =
     ''int nmsimplex(MOT_FLOAT_TYPE* const model_parameters, const void* const data);''"

text \<open>The text lines of a file that are not blank once the comments are gone.\<close>

definition text_lines :: "string list \<Rightarrow> string list list" where
  "text_lines file = concat (map (\<lambda>l. case l of Text (t # ts) \<Rightarrow> [t # ts] | _ \<Rightarrow> []) (pp_parse file))"

text \<open>The directives of a file.\<close>

definition directives :: "string list \<Rightarrow> pp_line list" where
  "directives file = filter (\<lambda>l. case l of Text _ \<Rightarrow> False | _ \<Rightarrow> True) (pp_parse file)"

text \<open>
  The declarations of a token stream that have reached their semicolon; tokens after the
  last semicolon are still pending and belong to no declaration yet.
\<close>

fun complete_decls :: "string list \<Rightarrow> string list \<Rightarrow> string list list" where
  "complete_decls cur [] = []"
| "complete_decls cur (t # ts) =
     (if t = '';'' then (cur @ [t]) # complete_decls [] ts else complete_decls (cur @ [t]) ts)"

text \<open>
  The prototypes a file adds to a translation unit: the declarations that are complete
  after the inclusion and were not before it. Tokens the unit had left pending (a
  \<open>static\<close> with nothing after it yet, say) are part of the first declaration the file
  completes.
\<close>

definition declared_by :: "string list \<Rightarrow> tu \<Rightarrow> pp_error + prototype option list" where
  "declared_by file s =
     (case pp_include file s of
        Inl e \<Rightarrow> Inl e
      | Inr s' \<Rightarrow>
          Inr (map parse_prototype
                 (drop (length (complete_decls [] (emitted s))) (complete_decls [] (emitted s')))))"

text \<open>The prototype of line 12, read as a declaration.\<close>

definition nmsimplex_decl :: prototype where
  "nmsimplex_decl =
     \<lparr>return_type = [''int''], fname = ''nmsimplex'',
      params = [\<lparr>pointee = [''MOT_FLOAT_TYPE''], pointee_const = False, pointer_const = True,
                 param_name = ''model_parameters''\<rparr>,
                \<lparr>pointee = [''void''], pointee_const = True, pointer_const = True,
                 param_name = ''data''\<rparr>]\<rparr>"




section \<open>The call, as the specification describes it\<close>

text \<open>
  Modelled from the spec: the memory the two arguments of \<open>nmsimplex\<close> point into. The
  repository holds no caller and no body, so the memory is the specification's data model
  (section 3): \<open>model_parameters\<close> is a mutable, fixed-length sequence of floating-point
  values (a cell \<open>Floats\<close>, with the flag saying whether it may be written), \<open>data\<close> is an
  opaque context (a cell \<open>Opaque\<close>). The element type \<open>'f\<close> stands for
  \<open>MOT_FLOAT_TYPE\<close> and \<open>'d\<close> for the caller's context structure; no arithmetic on
  either is modelled.
\<close>

datatype ('f, 'd) cell = Floats bool "'f list" | Opaque 'd

text \<open>
  Modelled from the spec: an address space for those cells. A pointer is an address or
  null (\<open>None\<close>).
\<close>

type_synonym ('f, 'd) memory = "nat \<Rightarrow> ('f, 'd) cell option"

text \<open>
  The result type \<open>int\<close> of the prototype: 32 bits as in OpenCL C, read as two's
  complement by \<open>sint\<close>. The status is only passed on, never computed with.
\<close>

type_synonym c_int = "32 word"

text \<open>
  Modelled from the spec: "read and overwritten in place" for a fixed-length buffer. The
  new values replace the old ones slot by slot; the buffer keeps its length whatever the
  length of the list of new values.
\<close>

definition overwrite :: "'a list \<Rightarrow> 'a list \<Rightarrow> 'a list" where
  "overwrite old new = take (length old) new @ drop (length new) old"

text \<open>
  Modelled from the spec: the body of \<open>nmsimplex\<close>, which the repository does not hold
  (the header declares it and nothing defines it). Section 4.1: "given an initial/working
  parameter vector and a context blob, perform (elsewhere-defined) numerical optimization
  and report a status"; inputs "\<open>model_parameters\<close>: finite-length numeric buffer,
  non-null, mutable; \<open>data\<close>: non-null opaque context, read-only for the duration of
  the call"; side effects "in-place mutation of \<open>model_parameters\<close>". The
  elsewhere-defined optimisation is the parameter \<open>optimise\<close>: from the values read and
  the context it gives the status and the optimised values. Outside the stated inputs the
  specification promises nothing, which is the result \<open>None\<close>.
\<close>

definition nmsimplex ::
  "('f list \<Rightarrow> 'd \<Rightarrow> c_int \<times> 'f list) \<Rightarrow> nat option \<Rightarrow> nat option \<Rightarrow> ('f, 'd) memory
     \<Rightarrow> (c_int \<times> ('f, 'd) memory) option" where
  "nmsimplex optimise model_parameters data mem =
     (case (model_parameters, data) of
        (Some p, Some d) \<Rightarrow>
          (case (mem p, mem d) of
             (Some (Floats True xs), Some (Opaque c)) \<Rightarrow>
               (case optimise xs c of
                  (status, ys) \<Rightarrow> Some (status, mem(p \<mapsto> Floats True (overwrite xs ys))))
           | _ \<Rightarrow> None)
      | _ \<Rightarrow> None)"

section \<open>Facts about the header\<close>

subsection \<open>The header, preprocessed\<close>

lemma pp_parse_nmsimplex_h:
  "pp_parse nmsimplex_h =
     [Ifndef ''NMSIMPLEX_H'', Define ''NMSIMPLEX_H'' [], Text [], Text [], Text [],
      Text [''int'', ''nmsimplex'', ''('', ''MOT_FLOAT_TYPE'', ''*'', ''const'',
            ''model_parameters'', '','', ''const'', ''void'', ''*'', ''const'', ''data'',
            '')'', '';''],
      Text [], Endif]"
  by code_simp

lemma lex_spec_prototype:
  "lex_line spec_prototype =
     [''int'', ''nmsimplex'', ''('', ''MOT_FLOAT_TYPE'', ''*'', ''const'',
      ''model_parameters'', '','', ''const'', ''void'', ''*'', ''const'', ''data'',
      '')'', '';'']"
  by code_simp

lemma text_lines_nmsimplex_h: "text_lines nmsimplex_h = [lex_line spec_prototype]"
  by (simp add: text_lines_def pp_parse_nmsimplex_h lex_spec_prototype)

lemma directives_nmsimplex_h:
  "directives nmsimplex_h = [Ifndef ''NMSIMPLEX_H'', Define ''NMSIMPLEX_H'' [], Endif]"
  by (simp add: directives_def pp_parse_nmsimplex_h)

lemma declarations_spec_prototype:
  "declarations (lex_line spec_prototype) = [lex_line spec_prototype]"
  by code_simp

lemma parse_prototype_spec:
  "parse_prototype (lex_line spec_prototype) = Some nmsimplex_decl"
  by code_simp

lemma parse_spec_prototype:
  "map parse_prototype (declarations (lex_line spec_prototype)) = [Some nmsimplex_decl]"
  by (simp add: declarations_spec_prototype parse_prototype_spec)

lemma declared_by_float:
  "declared_by nmsimplex_h \<lparr>macros = [(''MOT_FLOAT_TYPE'', [''float''])], emitted = []\<rparr>
     = Inr [Some (nmsimplex_decl\<lparr>params :=
              [\<lparr>pointee = [''float''], pointee_const = False, pointer_const = True,
                param_name = ''model_parameters''\<rparr>,
               \<lparr>pointee = [''void''], pointee_const = True, pointer_const = True,
                param_name = ''data''\<rparr>]\<rparr>)]"
  by code_simp

lemma declared_by_double:
  "declared_by nmsimplex_h \<lparr>macros = [(''MOT_FLOAT_TYPE'', [''double''])], emitted = []\<rparr>
     = Inr [Some (nmsimplex_decl\<lparr>params :=
              [\<lparr>pointee = [''double''], pointee_const = False, pointer_const = True,
                param_name = ''model_parameters''\<rparr>,
               \<lparr>pointee = [''void''], pointee_const = True, pointer_const = True,
                param_name = ''data''\<rparr>]\<rparr>)]"
  by code_simp

lemma declared_by_none:
  "declared_by nmsimplex_h \<lparr>macros = [], emitted = []\<rparr> = Inr [Some nmsimplex_decl]"
  by code_simp

lemma include_nmsimplex_h:
  "pp_include nmsimplex_h s =
     Inr (if map_of (macros s) ''NMSIMPLEX_H'' = None
          then s\<lparr>macros := (''NMSIMPLEX_H'', []) # macros s,
                 emitted := emitted s @ expand ((''NMSIMPLEX_H'', []) # macros s) [] (lex_line spec_prototype)\<rparr>
          else s)"
  by (simp add: pp_include_def pp_parse_nmsimplex_h active_def lex_spec_prototype)
























subsection \<open>The call\<close>

lemma nmsimplex_SomeD:
  assumes "nmsimplex optimise mp dp mem = Some (status, mem')"
  obtains p d xs c where "mp = Some p" "dp = Some d" "mem p = Some (Floats True xs)"
    "mem d = Some (Opaque c)" "status = fst (optimise xs c)"
    "mem' = mem(p \<mapsto> Floats True (overwrite xs (snd (optimise xs c))))"
  using assms
  by (auto simp: nmsimplex_def split: option.splits cell.splits bool.splits prod.splits)

lemma length_overwrite: "length (overwrite old new) = length old"
  by (simp add: overwrite_def)

section \<open>The claims\<close>

text \<open>
  C1. The header's interface is one function declaration, the one section 6 of the
  specification quotes: the quoted line stands in the file verbatim and once; once the
  comments are gone it is the file's only line of text; the compiler reads it as one
  declaration, the prototype of \<open>nmsimplex\<close> with an \<open>int\<close> result and the two pointer
  parameters; and that is all a translation unit with no macros of its own receives.
\<close>

theorem header_declares_only_nmsimplex:
  "filter (\<lambda>l. l = spec_prototype) nmsimplex_h = [spec_prototype]
   \<and> text_lines nmsimplex_h = [lex_line spec_prototype]
   \<and> map parse_prototype (declarations (concat (text_lines nmsimplex_h))) = [Some nmsimplex_decl]
   \<and> declared_by nmsimplex_h \<lparr>macros = [], emitted = []\<rparr> = Inr [Some nmsimplex_decl]"
proof (intro conjI)
  show "filter (\<lambda>l. l = spec_prototype) nmsimplex_h = [spec_prototype]"
    by code_simp
  show "text_lines nmsimplex_h = [lex_line spec_prototype]"
    by (rule text_lines_nmsimplex_h)
  show "map parse_prototype (declarations (concat (text_lines nmsimplex_h))) = [Some nmsimplex_decl]"
    by (simp add: text_lines_nmsimplex_h parse_spec_prototype)
  show "declared_by nmsimplex_h \<lparr>macros = [], emitted = []\<rparr> = Inr [Some nmsimplex_decl]"
    by (rule declared_by_none)
qed

text \<open>
  C2. Whenever the call gives a result, the memory differs from the memory before in one
  place only, the buffer \<open>model_parameters\<close> points to: that buffer is still there, still
  writable and of the same length, and holds the optimised values; every other address
  holds what it held. The prototype agrees: the first parameter is a pointer to
  non-\<open>const\<close> elements.
\<close>

theorem nmsimplex_writes_only_model_parameters:
  assumes "nmsimplex optimise mp dp mem = Some (status, mem')"
  shows "(\<exists>p xs c. mp = Some p \<and> mem p = Some (Floats True xs)
           \<and> mem' p = Some (Floats True (overwrite xs (snd (optimise xs c))))
           \<and> length (overwrite xs (snd (optimise xs c))) = length xs
           \<and> (\<forall>a. a \<noteq> p \<longrightarrow> mem' a = mem a))
         \<and> (\<exists>ret f q. map parse_prototype (declarations (concat (text_lines nmsimplex_h)))
           = [Some \<lparr>return_type = ret, fname = f,
                    params = [\<lparr>pointee = [''MOT_FLOAT_TYPE''], pointee_const = False,
                               pointer_const = True, param_name = ''model_parameters''\<rparr>, q]\<rparr>])"
proof
  show "\<exists>p xs c. mp = Some p \<and> mem p = Some (Floats True xs)
           \<and> mem' p = Some (Floats True (overwrite xs (snd (optimise xs c))))
           \<and> length (overwrite xs (snd (optimise xs c))) = length xs
           \<and> (\<forall>a. a \<noteq> p \<longrightarrow> mem' a = mem a)"
    using assms by (elim nmsimplex_SomeD) (auto simp: length_overwrite)
  show "\<exists>ret f q. map parse_prototype (declarations (concat (text_lines nmsimplex_h)))
           = [Some \<lparr>return_type = ret, fname = f,
                    params = [\<lparr>pointee = [''MOT_FLOAT_TYPE''], pointee_const = False,
                               pointer_const = True, param_name = ''model_parameters''\<rparr>, q]\<rparr>]"
    by (simp add: text_lines_nmsimplex_h parse_spec_prototype nmsimplex_decl_def)
qed

theorem nmsimplex_writes_only_model_parameters_witness:
  "nmsimplex (\<lambda>xs c. (0, map (\<lambda>x. x + c) xs)) (Some 1) (Some 2)
     [1 \<mapsto> Floats True [1, 2, 3 :: int], 2 \<mapsto> Opaque (10 :: int)]
   = Some (0, [1 \<mapsto> Floats True [11, 12, 13], 2 \<mapsto> Opaque 10])
   \<and> (\<exists>p xs c. Some (1::nat) = Some p
        \<and> [1 \<mapsto> Floats True [1, 2, 3 :: int], 2 \<mapsto> Opaque (10 :: int)] p = Some (Floats True xs)
        \<and> [1 \<mapsto> Floats True [11, 12, 13 :: int], 2 \<mapsto> Opaque (10 :: int)] p
            = Some (Floats True (overwrite xs (snd ((0::c_int), map (\<lambda>x. x + c) xs)))))"
proof -
  have run: "nmsimplex (\<lambda>xs c. (0, map (\<lambda>x. x + c) xs)) (Some 1) (Some 2)
     [1 \<mapsto> Floats True [1, 2, 3 :: int], 2 \<mapsto> Opaque (10 :: int)]
   = Some (0, [1 \<mapsto> Floats True [11, 12, 13], 2 \<mapsto> Opaque 10])"
    by (auto simp: nmsimplex_def overwrite_def)
  from nmsimplex_writes_only_model_parameters[OF run] run show ?thesis by auto
qed

text \<open>
  C3. Whenever the call gives a result, the memory \<open>data\<close> points to is what it was
  before the call; and the prototype declares the parameter \<open>const void* const data\<close>:
  the pointer and what it points to are both \<open>const\<close>.
\<close>

theorem nmsimplex_leaves_data_unchanged:
  assumes "nmsimplex optimise mp (Some d) mem = Some (status, mem')"
  shows "mem' d = mem d
         \<and> (\<exists>ret f p. map parse_prototype (declarations (concat (text_lines nmsimplex_h)))
              = [Some \<lparr>return_type = ret, fname = f,
                       params = [p, \<lparr>pointee = [''void''], pointee_const = True,
                                     pointer_const = True, param_name = ''data''\<rparr>]\<rparr>])"
  using assms
  by (elim nmsimplex_SomeD) (auto simp: text_lines_nmsimplex_h parse_spec_prototype nmsimplex_decl_def)

theorem nmsimplex_leaves_data_unchanged_witness:
  "nmsimplex (\<lambda>xs c. (0, map (\<lambda>x. x + c) xs)) (Some 1) (Some 2)
     [1 \<mapsto> Floats True [1, 2, 3 :: int], 2 \<mapsto> Opaque (10 :: int)]
   = Some (0, [1 \<mapsto> Floats True [11, 12, 13], 2 \<mapsto> Opaque 10])
   \<and> [1 \<mapsto> Floats True [11, 12, 13 :: int], 2 \<mapsto> Opaque (10 :: int)] (2 :: nat) = Some (Opaque 10)"
proof -
  have run: "nmsimplex (\<lambda>xs c. (0, map (\<lambda>x. x + c) xs)) (Some 1) (Some 2)
     [1 \<mapsto> Floats True [1, 2, 3 :: int], 2 \<mapsto> Opaque (10 :: int)]
   = Some (0, [1 \<mapsto> Floats True [11, 12, 13], 2 \<mapsto> Opaque 10])"
    by (auto simp: nmsimplex_def overwrite_def)
  from nmsimplex_leaves_data_unchanged[OF run] run show ?thesis by simp
qed

text \<open>
  C4. The declared result type of \<open>nmsimplex\<close> is \<open>int\<close>, and the header gives the
  values no meaning: its only directives are the include guard, whose macro has an empty
  replacement list, and its only text is the prototype, so it names no status value.
\<close>

theorem nmsimplex_returns_int_without_encoding:
  "(\<exists>f ps. map parse_prototype (declarations (concat (text_lines nmsimplex_h)))
       = [Some \<lparr>return_type = [''int''], fname = f, params = ps\<rparr>])
   \<and> directives nmsimplex_h = [Ifndef ''NMSIMPLEX_H'', Define ''NMSIMPLEX_H'' [], Endif]
   \<and> text_lines nmsimplex_h = [lex_line spec_prototype]"
  by (simp add: text_lines_nmsimplex_h directives_nmsimplex_h parse_spec_prototype nmsimplex_decl_def)

text \<open>
  C5. The call gives a result exactly when \<open>model_parameters\<close> is a non-null pointer to
  a writable buffer of numbers and \<open>data\<close> is a non-null pointer to an opaque context;
  outside these inputs nothing is promised.
\<close>

theorem nmsimplex_defined_iff_inputs_valid:
  "(\<exists>r. nmsimplex optimise mp dp mem = Some r)
     = (\<exists>p d xs c. mp = Some p \<and> dp = Some d \<and> mem p = Some (Floats True xs) \<and> mem d = Some (Opaque c))"
  by (auto simp: nmsimplex_def split: option.splits cell.splits bool.splits prod.splits)

text \<open>
  C6. The file is an include guard, one comment (lines 4 to 10, holding the licence line)
  and one prototype: preprocessed, it is the three directives of the guard, blank lines
  and the prototype's line. That line has no brace, no initialiser and no \<open>struct\<close>,
  \<open>union\<close>, \<open>enum\<close> or \<open>typedef\<close>, and it ends as a prototype does: nothing is
  defined, \<open>nmsimplex\<close> included.
\<close>

theorem header_is_guard_comment_and_prototype:
  "pp_parse nmsimplex_h =
     [Ifndef ''NMSIMPLEX_H'', Define ''NMSIMPLEX_H'' [], Text [], Text [], Text [],
      Text (lex_line spec_prototype), Text [], Endif]
   \<and> strip_comments InCode (join_lines (take 7 (drop 3 nmsimplex_h))) = '' ''
   \<and> '' * License = LGPL v3'' \<in> set (take 7 (drop 3 nmsimplex_h))
   \<and> list_all (\<lambda>t. t \<notin> set [''{'', ''}'', ''='', ''struct'', ''union'', ''enum'', ''typedef''])
        (lex_line spec_prototype)
   \<and> (\<exists>p. map parse_prototype (declarations (lex_line spec_prototype)) = [Some p])"
proof (intro conjI)
  show "pp_parse nmsimplex_h =
     [Ifndef ''NMSIMPLEX_H'', Define ''NMSIMPLEX_H'' [], Text [], Text [], Text [],
      Text (lex_line spec_prototype), Text [], Endif]"
    by (simp add: pp_parse_nmsimplex_h lex_spec_prototype)
  show "strip_comments InCode (join_lines (take 7 (drop 3 nmsimplex_h))) = '' ''"
    by code_simp
  show "'' * License = LGPL v3'' \<in> set (take 7 (drop 3 nmsimplex_h))"
    by code_simp
  show "list_all (\<lambda>t. t \<notin> set [''{'', ''}'', ''='', ''struct'', ''union'', ''enum'', ''typedef''])
        (lex_line spec_prototype)"
    by (simp add: lex_spec_prototype)
  show "\<exists>p. map parse_prototype (declarations (lex_line spec_prototype)) = [Some p]"
    by (simp add: parse_spec_prototype)
qed

text \<open>
  C7. The header uses the name \<open>MOT_FLOAT_TYPE\<close> and does not define it: an inclusion
  leaves the name's macro definition (or its absence) as the including unit had it, and
  the header's text has no \<open>typedef\<close>. So the element type of \<open>model_parameters\<close> is
  the includer's: \<open>float\<close> where the includer defines the name as \<open>float\<close>,
  \<open>double\<close> where it defines it as \<open>double\<close>, and the bare name where it defines
  nothing.
\<close>

theorem MOT_FLOAT_TYPE_left_to_includer:
  "(\<exists>s'. pp_include nmsimplex_h s = Inr s'
         \<and> map_of (macros s') ''MOT_FLOAT_TYPE'' = map_of (macros s) ''MOT_FLOAT_TYPE'')
   \<and> ''MOT_FLOAT_TYPE'' \<in> set (concat (text_lines nmsimplex_h))
   \<and> ''typedef'' \<notin> set (concat (text_lines nmsimplex_h))
   \<and> (\<exists>ret f q. declared_by nmsimplex_h \<lparr>macros = [(''MOT_FLOAT_TYPE'', [''float''])], emitted = []\<rparr>
         = Inr [Some \<lparr>return_type = ret, fname = f,
                 params = [\<lparr>pointee = [''float''], pointee_const = False, pointer_const = True,
                            param_name = ''model_parameters''\<rparr>, q]\<rparr>])
   \<and> (\<exists>ret f q. declared_by nmsimplex_h \<lparr>macros = [(''MOT_FLOAT_TYPE'', [''double''])], emitted = []\<rparr>
         = Inr [Some \<lparr>return_type = ret, fname = f,
                 params = [\<lparr>pointee = [''double''], pointee_const = False, pointer_const = True,
                            param_name = ''model_parameters''\<rparr>, q]\<rparr>])
   \<and> (\<exists>ret f q. declared_by nmsimplex_h \<lparr>macros = [], emitted = []\<rparr>
         = Inr [Some \<lparr>return_type = ret, fname = f,
                 params = [\<lparr>pointee = [''MOT_FLOAT_TYPE''], pointee_const = False, pointer_const = True,
                            param_name = ''model_parameters''\<rparr>, q]\<rparr>])"
proof (intro conjI)
  show "\<exists>s'. pp_include nmsimplex_h s = Inr s'
         \<and> map_of (macros s') ''MOT_FLOAT_TYPE'' = map_of (macros s) ''MOT_FLOAT_TYPE''"
    by (simp add: include_nmsimplex_h)
  show "''MOT_FLOAT_TYPE'' \<in> set (concat (text_lines nmsimplex_h))"
    by (simp add: text_lines_nmsimplex_h lex_spec_prototype)
  show "''typedef'' \<notin> set (concat (text_lines nmsimplex_h))"
    by (simp add: text_lines_nmsimplex_h lex_spec_prototype)
  show "\<exists>ret f q. declared_by nmsimplex_h \<lparr>macros = [(''MOT_FLOAT_TYPE'', [''float''])], emitted = []\<rparr>
         = Inr [Some \<lparr>return_type = ret, fname = f,
                 params = [\<lparr>pointee = [''float''], pointee_const = False, pointer_const = True,
                            param_name = ''model_parameters''\<rparr>, q]\<rparr>]"
    by (simp add: declared_by_float nmsimplex_decl_def)
  show "\<exists>ret f q. declared_by nmsimplex_h \<lparr>macros = [(''MOT_FLOAT_TYPE'', [''double''])], emitted = []\<rparr>
         = Inr [Some \<lparr>return_type = ret, fname = f,
                 params = [\<lparr>pointee = [''double''], pointee_const = False, pointer_const = True,
                            param_name = ''model_parameters''\<rparr>, q]\<rparr>]"
    by (simp add: declared_by_double nmsimplex_decl_def)
  show "\<exists>ret f q. declared_by nmsimplex_h \<lparr>macros = [], emitted = []\<rparr>
         = Inr [Some \<lparr>return_type = ret, fname = f,
                 params = [\<lparr>pointee = [''MOT_FLOAT_TYPE''], pointee_const = False, pointer_const = True,
                            param_name = ''model_parameters''\<rparr>, q]\<rparr>]"
    by (simp add: declared_by_none nmsimplex_decl_def)
qed

text \<open>
  C8. The file has fourteen lines (thirteen newline characters, the last line ending the
  file), and what they hold is declarations only: three directives and text in which
  every declaration is a prototype.
\<close>

theorem header_has_fourteen_lines:
  "length nmsimplex_h = 14
   \<and> length (filter (\<lambda>c. c = newline) (join_lines nmsimplex_h)) = 13
   \<and> split_lines [] (join_lines nmsimplex_h) = nmsimplex_h
   \<and> length (directives nmsimplex_h) = 3
   \<and> list_all (\<lambda>d. parse_prototype d \<noteq> None) (declarations (concat (text_lines nmsimplex_h)))"
proof (intro conjI)
  show "length nmsimplex_h = 14" by (simp add: nmsimplex_h_def)
  show "length (filter (\<lambda>c. c = newline) (join_lines nmsimplex_h)) = 13" by code_simp
  show "split_lines [] (join_lines nmsimplex_h) = nmsimplex_h" by code_simp
  show "length (directives nmsimplex_h) = 3" by (simp add: directives_nmsimplex_h)
  show "list_all (\<lambda>d. parse_prototype d \<noteq> None) (declarations (concat (text_lines nmsimplex_h)))"
    by (simp add: text_lines_nmsimplex_h declarations_spec_prototype parse_prototype_spec)
qed






end
